theory Spec2Isabelle
  imports Complex_Main
begin

section \<open>Values and wire types\<close>

text \<open>
  The two dashboard components (the table-library version with \<open>useReactTable\<close> and the
  manual-pagination version with \<open>handleSort\<close>) keep their state in React \<open>useState\<close>
  cells. A cell of type \<open>string | null\<close> is a \<open>string option\<close>; the tests \<open>!v\<close> and
  \<open>a || b\<close> on such a cell follow JavaScript truthiness, where both \<open>null\<close> and the empty
  string are falsy.
\<close>

datatype jsvalue =
    JNumber real
  | JNaN
  | JString string
  | JBool bool
  | JNull
  | JObject

type_synonym row = "string \<rightharpoonup> jsvalue"

datatype axios_error = NetworkError | HttpStatus int

record UploadedFile =
  file_id :: string
  original_filename :: string
  upload_date :: string

record TableData =
  data :: "row list"
  total_count :: int
  page :: int
  page_size :: int
  columns :: "string list"

record ChartApiResponse =
  chart_type :: string
  chart_rows :: "row list"
  x_column :: string
  y_column :: string

record ColumnSort =
  col_id :: string
  desc :: bool

datatype sort_order = Asc | Desc

datatype 'a Updater = UpdaterFn "'a \<Rightarrow> 'a" | UpdaterValue 'a

record PaginationState =
  pageIndex :: int
  pageSize_p :: int

text \<open>Truthiness of a \<open>string | null | undefined\<close> value, and \<open>a || b\<close> on such values.\<close>

definition truthy :: "string option \<Rightarrow> bool" where
  "truthy v = (case v of None \<Rightarrow> False | Some s \<Rightarrow> s \<noteq> [])"

definition js_or :: "string option \<Rightarrow> string option \<Rightarrow> string option" where
  "js_or a b = (if truthy a then a else b)"

text \<open>\<open>xs[i]\<close>: \<open>undefined\<close> out of range.\<close>

definition js_index :: "'a list \<Rightarrow> nat \<Rightarrow> 'a option" where
  "js_index xs i = (if i < length xs then Some (xs ! i) else None)"

text \<open>\<open>columns.includes(v)\<close> for a \<open>string | null\<close> argument.\<close>

definition js_includes :: "string list \<Rightarrow> string option \<Rightarrow> bool" where
  "js_includes xs v = (case v of None \<Rightarrow> False | Some c \<Rightarrow> c \<in> set xs)"

text \<open>\<open>typeof v === "number" && !isNaN(v)\<close>; a missing property reads as \<open>undefined\<close>.\<close>

fun is_number :: "jsvalue option \<Rightarrow> bool" where
  "is_number (Some (JNumber r)) = True"
| "is_number v = False"

section \<open>Component state\<close>

text \<open>
  The \<open>useState\<close> cells that both components declare. The sort and filter cells differ
  between the two components and extend this record.
\<close>

record dashboard =
  files :: "UploadedFile list"
  selectedFileId :: "string option"
  tableData :: "TableData option"
  chartData :: "ChartApiResponse option"
  currentPage :: int
  pageSize :: int
  selectedXColumn :: "string option"
  selectedYColumn :: "string option"
  selectedChartType :: string
  isLoadingTable :: bool
  isLoadingChart :: bool
  isUploading :: bool
  fileUploadError :: "string option"
  dataFetchError :: "string option"
  chartFetchError :: "string option"
  isUploadDialogOpen :: bool

text \<open>Manual-pagination component: \<open>sortColumn\<close>, \<open>sortOrder\<close>, \<open>searchQuery\<close>.\<close>

record manual_dashboard = dashboard +
  sortColumn :: "string option"
  sortOrder :: sort_order
  searchQuery :: string

text \<open>Table-library component: \<open>sorting\<close>, \<open>globalFilter\<close>.\<close>

record table_dashboard = dashboard +
  sorting :: "ColumnSort list"
  globalFilter :: string

text \<open>The initial values of the \<open>useState\<close> cells.\<close>

definition initial_manual :: manual_dashboard where
  "initial_manual =
     \<lparr> files = [], selectedFileId = None, tableData = None, chartData = None,
       currentPage = 1, pageSize = 10, selectedXColumn = None, selectedYColumn = None,
       selectedChartType = ''bar'', isLoadingTable = False, isLoadingChart = False,
       isUploading = False, fileUploadError = None, dataFetchError = None,
       chartFetchError = None, isUploadDialogOpen = False,
       sortColumn = None, sortOrder = Asc, searchQuery = [] \<rparr>"

definition initial_table :: table_dashboard where
  "initial_table =
     \<lparr> files = [], selectedFileId = None, tableData = None, chartData = None,
       currentPage = 1, pageSize = 10, selectedXColumn = None, selectedYColumn = None,
       selectedChartType = ''bar'', isLoadingTable = False, isLoadingChart = False,
       isUploading = False, fileUploadError = None, dataFetchError = None,
       chartFetchError = None, isUploadDialogOpen = False,
       sorting = [], globalFilter = [] \<rparr>"

section \<open>Dataset list\<close>

text \<open>
  \<open>fetchFiles\<close> (identical in both components). The callback closes over
  \<open>selectedFileId\<close> and tests that captured value when the request settles; \<open>sel\<close> is
  the selection at the time the request was issued, \<open>resp\<close> the outcome of the request
  and \<open>s\<close> the state at the time it settles. Nothing is written before the request.
\<close>

definition fetchFiles_resolve ::
  "string option \<Rightarrow> axios_error + UploadedFile list \<Rightarrow>
   'a dashboard_scheme \<Rightarrow> 'a dashboard_scheme" where
  "fetchFiles_resolve sel resp s =
     (case resp of
        Inr fs \<Rightarrow>
          (let s1 = s\<lparr>files := fs\<rparr> in
           if length fs > 0 \<and> \<not> truthy sel then
             s1\<lparr>selectedFileId := Some (file_id (fs ! 0))\<rparr>
           else if length fs = 0 \<and> truthy sel then
             s1\<lparr>selectedFileId := None\<rparr>
           else if truthy sel \<and> \<not> list_ex (\<lambda>f. Some (file_id f) = sel) fs then
             s1\<lparr>selectedFileId := (if length fs > 0 then Some (file_id (fs ! 0)) else None)\<rparr>
           else s1)
      | Inl e \<Rightarrow> s\<lparr>dataFetchError := Some ''Failed to fetch files.''\<rparr>)"

section \<open>Chart projection\<close>

text \<open>
  \<open>fetchChartData\<close> (identical in both components), split at its \<open>await\<close>: the part up
  to the request, which returns the request it issues (if any), and the part that runs
  when the request settles.
\<close>

record chart_request =
  cr_file :: string
  cr_chart_type :: string
  cr_x_column :: string
  cr_y_column :: string

definition fetchChartData_start ::
  "'a dashboard_scheme \<Rightarrow> 'a dashboard_scheme \<times> chart_request option" where
  "fetchChartData_start s =
     (if \<not> truthy (selectedFileId s) \<or> \<not> truthy (selectedXColumn s)
         \<or> \<not> truthy (selectedYColumn s) then
        (s\<lparr>chartData := None\<rparr>, None)
      else
        (s\<lparr>isLoadingChart := True, chartFetchError := None\<rparr>,
         Some \<lparr> cr_file = the (selectedFileId s),
                cr_chart_type = selectedChartType s,
                cr_x_column = the (selectedXColumn s),
                cr_y_column = the (selectedYColumn s) \<rparr>))"

definition fetchChartData_resolve ::
  "chart_request \<Rightarrow> axios_error + ChartApiResponse \<Rightarrow>
   'a dashboard_scheme \<Rightarrow> 'a dashboard_scheme" where
  "fetchChartData_resolve req resp s =
     (case resp of
        Inr r \<Rightarrow> s\<lparr>chartData := Some r, isLoadingChart := False\<rparr>
      | Inl e \<Rightarrow>
          s\<lparr>chartData := None,
            chartFetchError :=
              Some ''Failed to fetch chart data. Check column types or backend logs.'',
            isLoadingChart := False\<rparr>)"

section \<open>Column inference\<close>

text \<open>
  The block that both components run on a fetched page: the table-library component in an
  effect over \<open>tableData\<close>, the manual-pagination component inside \<open>fetchData\<close> after
  \<open>setTableData\<close>. \<open>selX\<close> and \<open>selY\<close> are the values of \<open>selectedXColumn\<close> and
  \<open>selectedYColumn\<close> that the enclosing closure sees.
\<close>

definition numericColumn :: "TableData \<Rightarrow> string option" where
  "numericColumn td =
     find (\<lambda>col. list_ex (\<lambda>r. is_number (r col)) (take 5 (data td))) (columns td)"

definition inferColumns ::
  "string option \<Rightarrow> string option \<Rightarrow> TableData \<Rightarrow>
   'a dashboard_scheme \<Rightarrow> 'a dashboard_scheme" where
  "inferColumns selX selY td s =
     (if length (columns td) > 0 then
        (let s1 = (if \<not> truthy selX \<or> \<not> js_includes (columns td) selX
                   then s\<lparr>selectedXColumn := Some (columns td ! 0)\<rparr> else s)
         in if \<not> truthy selY \<or> \<not> js_includes (columns td) selY
            then s1\<lparr>selectedYColumn :=
                      js_or (js_or (numericColumn td) (js_index (columns td) 1))
                            (js_index (columns td) 0)\<rparr>
            else s1)
      else s\<lparr>selectedXColumn := None, selectedYColumn := None\<rparr>)"

text \<open>
  The effect of the table-library component. It runs after the render of the state has
  committed, and reads the chart columns of that state. The render builds one column
  definition per column name, with the name as accessor key and a function as header;
  the table library refuses such a definition when the name is the empty string, and
  the render throws. On a page with such a column the effect never runs: \<open>None\<close>.
\<close>

definition inferenceEffect :: "'a dashboard_scheme \<Rightarrow> 'a dashboard_scheme option" where
  "inferenceEffect s =
     (case tableData s of
        None \<Rightarrow> Some s
      | Some td \<Rightarrow>
          if [] \<in> set (columns td) then None
          else Some (inferColumns (selectedXColumn s) (selectedYColumn s) td s))"

section \<open>Table page\<close>

text \<open>
  \<open>fetchData\<close>, split at its \<open>await\<close>. The closure record holds the state values the
  callback was created with; the request parameters are built from it.
\<close>

record table_closure =
  tc_selectedFileId :: string
  tc_currentPage :: int
  tc_pageSize :: int
  tc_sorting :: "ColumnSort list"
  tc_globalFilter :: string

record manual_closure =
  mc_selectedFileId :: string
  mc_currentPage :: int
  mc_pageSize :: int
  mc_sortColumn :: "string option"
  mc_sortOrder :: sort_order
  mc_searchQuery :: string
  mc_selectedXColumn :: "string option"
  mc_selectedYColumn :: "string option"

text \<open>Table-library component.\<close>

definition fetchData_start_table ::
  "table_dashboard \<Rightarrow> table_dashboard \<times> table_closure option" where
  "fetchData_start_table s =
     (if \<not> truthy (selectedFileId s) then (s\<lparr>tableData := None\<rparr>, None)
      else
        (s\<lparr>isLoadingTable := True, dataFetchError := None\<rparr>,
         Some \<lparr> tc_selectedFileId = the (selectedFileId s),
                tc_currentPage = currentPage s,
                tc_pageSize = pageSize s,
                tc_sorting = sorting s,
                tc_globalFilter = globalFilter s \<rparr>))"

definition fetchData_resolve_table ::
  "table_closure \<Rightarrow> axios_error + TableData \<Rightarrow> table_dashboard \<Rightarrow> table_dashboard" where
  "fetchData_resolve_table cl resp s =
     (case resp of
        Inr td \<Rightarrow> s\<lparr>tableData := Some td, isLoadingTable := False\<rparr>
      | Inl e \<Rightarrow>
          s\<lparr>tableData := None, dataFetchError := Some ''Failed to fetch data.'',
            isLoadingTable := False\<rparr>)"

text \<open>Manual-pagination component: the inference block runs inside the \<open>try\<close>.\<close>

definition fetchData_start_manual ::
  "manual_dashboard \<Rightarrow> manual_dashboard \<times> manual_closure option" where
  "fetchData_start_manual s =
     (if \<not> truthy (selectedFileId s) then (s\<lparr>tableData := None\<rparr>, None)
      else
        (s\<lparr>isLoadingTable := True, dataFetchError := None\<rparr>,
         Some \<lparr> mc_selectedFileId = the (selectedFileId s),
                mc_currentPage = currentPage s,
                mc_pageSize = pageSize s,
                mc_sortColumn = sortColumn s,
                mc_sortOrder = sortOrder s,
                mc_searchQuery = searchQuery s,
                mc_selectedXColumn = selectedXColumn s,
                mc_selectedYColumn = selectedYColumn s \<rparr>))"

definition fetchData_resolve_manual ::
  "manual_closure \<Rightarrow> axios_error + TableData \<Rightarrow> manual_dashboard \<Rightarrow> manual_dashboard" where
  "fetchData_resolve_manual cl resp s =
     (case resp of
        Inr td \<Rightarrow>
          (inferColumns (mc_selectedXColumn cl) (mc_selectedYColumn cl) td
             (s\<lparr>tableData := Some td\<rparr>))
          \<lparr>isLoadingTable := False\<rparr>
      | Inl e \<Rightarrow>
          s\<lparr>tableData := None, dataFetchError := Some ''Failed to fetch data.'',
            isLoadingTable := False\<rparr>)"

section \<open>Event handlers\<close>

text \<open>\<open>handleFileSelect\<close> of the manual-pagination component.\<close>

definition handleFileSelect_manual :: "string \<Rightarrow> manual_dashboard \<Rightarrow> manual_dashboard" where
  "handleFileSelect_manual fileId s =
     s\<lparr>selectedFileId := Some fileId, currentPage := 1, sortColumn := None,
       searchQuery := []\<rparr>"

text \<open>\<open>handleFileSelect\<close> of the table-library component.\<close>

definition handleFileSelect_table :: "string \<Rightarrow> table_dashboard \<Rightarrow> table_dashboard" where
  "handleFileSelect_table fileId s =
     s\<lparr>selectedFileId := Some fileId, currentPage := 1, sorting := [],
       globalFilter := []\<rparr>"

text \<open>\<open>handleSort\<close> (manual-pagination component).\<close>

definition handleSort :: "string \<Rightarrow> manual_dashboard \<Rightarrow> manual_dashboard" where
  "handleSort column s =
     (if sortColumn s = Some column then
        s\<lparr>sortOrder := (if sortOrder s = Asc then Desc else Asc)\<rparr>
      else s\<lparr>sortColumn := Some column, sortOrder := Asc\<rparr>)"

text \<open>
  The inline handlers of the manual-pagination component: the search box
  (\<open>setSearchQuery(e.target.value)\<close>) and the page-size select
  (\<open>setPageSize(Number(value))\<close>).
\<close>

definition searchInput_onChange :: "string \<Rightarrow> manual_dashboard \<Rightarrow> manual_dashboard" where
  "searchInput_onChange v s = s\<lparr>searchQuery := v\<rparr>"

definition pageSizeSelect_onValueChange :: "int \<Rightarrow> manual_dashboard \<Rightarrow> manual_dashboard" where
  "pageSizeSelect_onValueChange n s = s\<lparr>pageSize := n\<rparr>"

text \<open>
  The handlers of the table-library component: \<open>onSortingChange\<close>, \<open>onPaginationChange\<close>
  and the filter box. The table library calls the first two with a new value or with a
  function of the old value.
\<close>

definition onSortingChange ::
  "ColumnSort list Updater \<Rightarrow> table_dashboard \<Rightarrow> table_dashboard" where
  "onSortingChange updaterOrValue s =
     (let newSorting = (case updaterOrValue of
                          UpdaterFn f \<Rightarrow> f (sorting s)
                        | UpdaterValue v \<Rightarrow> v)
      in s\<lparr>sorting := newSorting, currentPage := 1\<rparr>)"

definition onPaginationChange ::
  "PaginationState Updater \<Rightarrow> table_dashboard \<Rightarrow> table_dashboard" where
  "onPaginationChange updaterOrValue s =
     (let newPagination =
            (case updaterOrValue of
               UpdaterFn f \<Rightarrow> f \<lparr>pageIndex = currentPage s - 1, pageSize_p = pageSize s\<rparr>
             | UpdaterValue v \<Rightarrow> v);
          s1 = s\<lparr>pageSize := pageSize_p newPagination,
                 currentPage := pageIndex newPagination + 1\<rparr>
      in if pageSize_p newPagination \<noteq> pageSize s then s1\<lparr>currentPage := 1\<rparr> else s1)"

definition filterInput_onChange :: "string \<Rightarrow> table_dashboard \<Rightarrow> table_dashboard" where
  "filterInput_onChange v s = s\<lparr>globalFilter := v, currentPage := 1\<rparr>"

text \<open>The chart-type select passes its value straight to \<open>setSelectedChartType\<close>.\<close>

definition chartTypeSelect_onValueChange ::
  "string \<Rightarrow> 'a dashboard_scheme \<Rightarrow> 'a dashboard_scheme" where
  "chartTypeSelect_onValueChange v s = s\<lparr>selectedChartType := v\<rparr>"

text \<open>The Y-axis select passes its value straight to \<open>setSelectedYColumn\<close>.\<close>

definition yColumnSelect_onValueChange ::
  "string \<Rightarrow> 'a dashboard_scheme \<Rightarrow> 'a dashboard_scheme" where
  "yColumnSelect_onValueChange v s = s\<lparr>selectedYColumn := Some v\<rparr>"

section \<open>What the table card shows\<close>

text \<open>
  The conditional that renders the body of the "Data Table" card in the table-library
  component: a prompt without a selection, the text of \<open>dataFetchError\<close> when it is set,
  a spinner while loading without data, the table when \<open>tableData\<close> is present, and
  nothing otherwise.
\<close>

datatype table_card =
    SelectFilePrompt
  | ErrorMessage string
  | Spinner
  | DataTable TableData
  | Blank

definition tableCard :: "'a dashboard_scheme \<Rightarrow> table_card" where
  "tableCard s =
     (if \<not> truthy (selectedFileId s) then SelectFilePrompt
      else if truthy (dataFetchError s) then ErrorMessage (the (dataFetchError s))
      else if isLoadingTable s \<and> tableData s = None then Spinner
      else (case tableData s of Some td \<Rightarrow> DataTable td | None \<Rightarrow> Blank))"

text \<open>
  The conditional that renders the body of the "My Files" card (both components): the
  text of \<open>dataFetchError\<close> when it is set, a note when there are no files, the list of
  files otherwise.
\<close>

datatype files_card =
    FilesError string
  | NoFilesYet
  | FileList "UploadedFile list"

definition filesCard :: "'a dashboard_scheme \<Rightarrow> files_card" where
  "filesCard s =
     (if truthy (dataFetchError s) then FilesError (the (dataFetchError s))
      else if length (files s) = 0 then NoFilesYet
      else FileList (files s))"

section \<open>Sample data\<close>

definition file_f1 :: UploadedFile where
  "file_f1 = \<lparr>file_id = ''f1'', original_filename = ''people.csv'',
              upload_date = ''2024-01-01''\<rparr>"

definition file_f2 :: UploadedFile where
  "file_f2 = \<lparr>file_id = ''f2'', original_filename = ''sales.csv'',
              upload_date = ''2024-01-02''\<rparr>"


text \<open>The page of the inference example: columns name, age, city and one row.\<close>

definition people_page :: TableData where
  "people_page =
     \<lparr> data = [[''name'' \<mapsto> JString ''a'', ''age'' \<mapsto> JNumber 30,
                 ''city'' \<mapsto> JString ''x'']],
       total_count = 1, page = 1, page_size = 10,
       columns = [''name'', ''age'', ''city''] \<rparr>"

definition sales_page :: TableData where
  "sales_page =
     \<lparr> data = [[''item'' \<mapsto> JString ''pen'', ''price'' \<mapsto> JNumber 2]],
       total_count = 1, page = 1, page_size = 10,
       columns = [''item'', ''price''] \<rparr>"

definition bar_chart :: ChartApiResponse where
  "bar_chart = \<lparr>chart_type = ''bar'', chart_rows = [], x_column = ''name'',
                y_column = ''age''\<rparr>"

definition line_chart :: ChartApiResponse where
  "line_chart = \<lparr>chart_type = ''line'', chart_rows = [], x_column = ''name'',
                 y_column = ''age''\<rparr>"

text \<open>
  A state with a selected file and X column, a chart on display, a raised loading flag
  and a recorded chart error, but no Y column.
\<close>

definition no_y_state :: manual_dashboard where
  "no_y_state =
     initial_manual
       \<lparr> selectedFileId := Some ''f1'', selectedXColumn := Some ''name'',
         chartData := Some bar_chart,
         isLoadingChart := True, chartFetchError := Some ''old'' \<rparr>"

text \<open>The manual-pagination component on page 3 of file f1.\<close>

definition page3_manual :: manual_dashboard where
  "page3_manual =
     initial_manual
       \<lparr> files := [file_f1, file_f2], selectedFileId := Some ''f1'',
         tableData := Some people_page, currentPage := 3,
         selectedXColumn := Some ''name'', selectedYColumn := Some ''age'' \<rparr>"

text \<open>The table-library component showing a loaded page and a loaded chart.\<close>

definition ready_table :: table_dashboard where
  "ready_table =
     initial_table
       \<lparr> files := [file_f1, file_f2], selectedFileId := Some ''f1'',
         tableData := Some people_page, chartData := Some bar_chart,
         selectedXColumn := Some ''name'', selectedYColumn := Some ''age'' \<rparr>"

section \<open>Two overlapping fetches\<close>

text \<open>
  Table-page stream, table-library component. The list fetch issued on mount, with no
  selection in its closure, settles and f1 is selected;
  the page fetch for f1 starts; the user selects f2 before it settles; the page fetch for
  f2 starts and settles first; the fetch for f1 settles last.
\<close>

definition race_t0 :: table_dashboard where
  "race_t0 = fetchFiles_resolve None (Inr [file_f1, file_f2]) initial_table"

definition race_t1 :: table_dashboard where
  "race_t1 = fst (fetchData_start_table race_t0)"

definition race_cl1 :: table_closure where
  "race_cl1 = the (snd (fetchData_start_table race_t0))"

definition race_t2 :: table_dashboard where
  "race_t2 = handleFileSelect_table ''f2'' race_t1"

definition race_t3 :: table_dashboard where
  "race_t3 = fst (fetchData_start_table race_t2)"

definition race_cl2 :: table_closure where
  "race_cl2 = the (snd (fetchData_start_table race_t2))"

definition race_t4 :: table_dashboard where
  "race_t4 = fetchData_resolve_table race_cl2 (Inr sales_page) race_t3"

definition race_t5 :: table_dashboard where
  "race_t5 = fetchData_resolve_table race_cl1 (Inr people_page) race_t4"

text \<open>
  Chart-projection stream. The bar chart is requested; the user switches the chart type
  to line before it settles; the line chart is requested and settles first; the bar chart
  settles last.
\<close>

definition race_c1 :: table_dashboard where
  "race_c1 = fst (fetchChartData_start ready_table)"

definition race_req1 :: chart_request where
  "race_req1 = the (snd (fetchChartData_start ready_table))"

definition race_c2 :: table_dashboard where
  "race_c2 = chartTypeSelect_onValueChange ''line'' race_c1"

definition race_c3 :: table_dashboard where
  "race_c3 = fst (fetchChartData_start race_c2)"

definition race_req2 :: chart_request where
  "race_req2 = the (snd (fetchChartData_start race_c2))"

definition race_c4 :: table_dashboard where
  "race_c4 = fetchChartData_resolve race_req2 (Inr line_chart) race_c3"

definition race_c5 :: table_dashboard where
  "race_c5 = fetchChartData_resolve race_req1 (Inr bar_chart) race_c4"

section \<open>A page fetch issued before a column choice\<close>

text \<open>
  Manual-pagination component. The list fetch issued on mount settles and f1 is
  selected; page fetch A starts. The user selects f2 (fetch B starts) and then f1 again (fetch C starts), all
  before any fetch settles, so the closures of A and C hold no chart columns. A settles
  with the page of f1 and inference picks name and age; the changed columns start
  another fetch. The user chooses city for Y, which starts another fetch. Then C settles
  with the same page of f1.
\<close>

definition stale_m0 :: manual_dashboard where
  "stale_m0 = fetchFiles_resolve None (Inr [file_f1, file_f2]) initial_manual"

definition stale_m1 :: manual_dashboard where
  "stale_m1 = fst (fetchData_start_manual stale_m0)"

definition stale_clA :: manual_closure where
  "stale_clA = the (snd (fetchData_start_manual stale_m0))"

definition stale_m2 :: manual_dashboard where
  "stale_m2 = fst (fetchData_start_manual (handleFileSelect_manual ''f2'' stale_m1))"

definition stale_m3 :: manual_dashboard where
  "stale_m3 = fst (fetchData_start_manual (handleFileSelect_manual ''f1'' stale_m2))"

definition stale_clC :: manual_closure where
  "stale_clC = the (snd (fetchData_start_manual (handleFileSelect_manual ''f1'' stale_m2)))"

definition stale_m4 :: manual_dashboard where
  "stale_m4 =
     fst (fetchData_start_manual
            (fetchData_resolve_manual stale_clA (Inr people_page) stale_m3))"

definition stale_m5 :: manual_dashboard where
  "stale_m5 = fst (fetchData_start_manual (yColumnSelect_onValueChange ''city'' stale_m4))"

definition stale_m6 :: manual_dashboard where
  "stale_m6 = fetchData_resolve_manual stale_clC (Inr people_page) stale_m5"

section \<open>A page fetch that settles after two file changes\<close>

text \<open>
  Manual-pagination component. The list fetch issued on mount settles and f1 is
  selected; page fetch A starts and settles with the page of f1, and inference picks
  name and age. The changed columns start page fetch D, whose closure holds f1, name and
  age. Before D settles the user selects f2; page fetch E starts and settles with the
  page of f2, and inference moves the columns to item and price, which starts another
  fetch. The user selects f1 again, which starts another fetch. Then D settles with the
  page of f1.
\<close>

definition late_m0 :: manual_dashboard where
  "late_m0 = fetchFiles_resolve None (Inr [file_f1, file_f2]) initial_manual"

definition late_m1 :: manual_dashboard where
  "late_m1 = fst (fetchData_start_manual late_m0)"

definition late_clA :: manual_closure where
  "late_clA = the (snd (fetchData_start_manual late_m0))"

definition late_m2 :: manual_dashboard where
  "late_m2 =
     fst (fetchData_start_manual
            (fetchData_resolve_manual late_clA (Inr people_page) late_m1))"

definition late_clD :: manual_closure where
  "late_clD =
     the (snd (fetchData_start_manual
                 (fetchData_resolve_manual late_clA (Inr people_page) late_m1)))"

definition late_m3 :: manual_dashboard where
  "late_m3 = fst (fetchData_start_manual (handleFileSelect_manual ''f2'' late_m2))"

definition late_clE :: manual_closure where
  "late_clE = the (snd (fetchData_start_manual (handleFileSelect_manual ''f2'' late_m2)))"

definition late_m4 :: manual_dashboard where
  "late_m4 =
     fst (fetchData_start_manual
            (fetchData_resolve_manual late_clE (Inr sales_page) late_m3))"

definition late_m5 :: manual_dashboard where
  "late_m5 = fst (fetchData_start_manual (handleFileSelect_manual ''f1'' late_m4))"

definition late_m6 :: manual_dashboard where
  "late_m6 = fetchData_resolve_manual late_clD (Inr people_page) late_m5"

section \<open>A list fetch that settles after a file change\<close>




section \<open>Auxiliary facts\<close>

lemma inferColumns_other_cells:
  "tableData (inferColumns x y td s) = tableData s"
  "isLoadingTable (inferColumns x y td s) = isLoadingTable s"
  "dataFetchError (inferColumns x y td s) = dataFetchError s"
  "chartData (inferColumns x y td s) = chartData s"
  "chartFetchError (inferColumns x y td s) = chartFetchError s"
  "isLoadingChart (inferColumns x y td s) = isLoadingChart s"
  "selectedFileId (inferColumns x y td s) = selectedFileId s"
  by (simp_all add: inferColumns_def Let_def)

text \<open>
  \<open>numericColumn\<close> is the first column, in column order, for which one of the first five
  rows holds a number; it is absent exactly when no column has such a row.
\<close>

lemma numericColumn_first:
  "numericColumn td = Some c \<longleftrightarrow>
     (\<exists>i < length (columns td). columns td ! i = c
        \<and> (\<exists>r \<in> set (take 5 (data td)). is_number (r c))
        \<and> (\<forall>j < i. \<not> (\<exists>r \<in> set (take 5 (data td)). is_number (r (columns td ! j)))))"
  by (auto simp: numericColumn_def find_Some_iff list_ex_iff)

lemma numericColumn_None:
  "numericColumn td = None \<longleftrightarrow>
     (\<forall>c \<in> set (columns td). \<not> (\<exists>r \<in> set (take 5 (data td)). is_number (r c)))"
  by (auto simp: numericColumn_def find_None_iff list_ex_iff)

text \<open>
  The handlers of the table-library component put the page back to 1: on every sorting
  change, on every filter change, on every file selection, and on a pagination change
  that changes the page size.
\<close>

lemma table_handlers_reset_page:
  "currentPage (onSortingChange u t) = 1"
  "currentPage (filterInput_onChange v t) = 1"
  "currentPage (handleFileSelect_table f t) = 1"
  "pageSize (onPaginationChange p t) \<noteq> pageSize t \<Longrightarrow>
     currentPage (onPaginationChange p t) = 1"
  by (auto simp: onSortingChange_def filterInput_onChange_def handleFileSelect_table_def
      onPaginationChange_def Let_def split: Updater.splits if_splits)

lemmas late_defs =
  late_m0_def late_m1_def late_clA_def late_m2_def late_clD_def late_m3_def late_clE_def
  late_m4_def late_m5_def late_m6_def


lemmas stale_defs =
  stale_m0_def stale_m1_def stale_clA_def stale_m2_def stale_m3_def stale_clC_def
  stale_m4_def stale_m5_def stale_m6_def

lemmas race_defs =
  race_t0_def race_t1_def race_cl1_def race_t2_def race_t3_def race_cl2_def
  race_t4_def race_t5_def race_c1_def race_req1_def race_c2_def race_c3_def
  race_req2_def race_c4_def race_c5_def

text \<open>
  What the inference block does with the chart columns it is given: it clears both on an
  empty column list; it replaces an X column that is falsy or not in the list by the
  first column; it replaces a Y column that is falsy or not in the list by the first
  truthy value among \<open>numericColumn\<close>, \<open>columns[1]\<close> and \<open>columns[0]\<close>; and it returns
  the state unchanged when both columns are non-empty and in the list.
\<close>

lemma inferColumns_empty:
  "columns td = [] \<Longrightarrow>
     selectedXColumn (inferColumns x y td s) = None
     \<and> selectedYColumn (inferColumns x y td s) = None"
  by (simp add: inferColumns_def)

lemma inferColumns_default_x:
  "columns td \<noteq> [] \<Longrightarrow> \<not> truthy x \<or> \<not> js_includes (columns td) x \<Longrightarrow>
     selectedXColumn (inferColumns x y td s) = Some (columns td ! 0)"
  by (auto simp: inferColumns_def Let_def)

lemma inferColumns_default_y:
  "columns td \<noteq> [] \<Longrightarrow> \<not> truthy y \<or> \<not> js_includes (columns td) y \<Longrightarrow>
     selectedYColumn (inferColumns x y td s) =
       (if numericColumn td \<noteq> None \<and> numericColumn td \<noteq> Some [] then numericColumn td
        else if 1 < length (columns td) \<and> columns td ! 1 \<noteq> [] then Some (columns td ! 1)
        else Some (columns td ! 0))"
  by (auto simp: inferColumns_def Let_def js_or_def truthy_def js_index_def
      split: option.splits)

lemma inferColumns_keeps_valid:
  assumes "x \<noteq> []" and "x \<in> set (columns td)"
      and "y \<noteq> []" and "y \<in> set (columns td)"
  shows "inferColumns (Some x) (Some y) td s = s"
proof -
  from assms have "columns td \<noteq> []" by auto
  with assms show ?thesis
    by (simp add: inferColumns_def Let_def truthy_def js_includes_def)
qed

text \<open>
  The effect of the table-library component reads the chart columns of the current
  state. On every page it runs on, a current Y column that is absent or not in the
  column list becomes the first column with a number in one of the first five rows, or
  \<open>columns[1]\<close>, or \<open>columns[0]\<close>; a current X column that is absent or not in the list
  becomes \<open>columns[0]\<close>; and current columns that are both in the list stay.
\<close>

lemma numericColumn_in_columns:
  "numericColumn td = Some c \<Longrightarrow> c \<in> set (columns td)"
  by (auto simp: numericColumn_def find_Some_iff)

lemma inferenceEffect_default_y:
  assumes td: "tableData s = Some td" and ne: "columns td \<noteq> []"
      and named: "[] \<notin> set (columns td)"
      and y: "\<not> js_includes (columns td) (selectedYColumn s)"
  shows "\<exists>s'. inferenceEffect s = Some s'
           \<and> selectedYColumn s' =
               (case numericColumn td of
                  Some c \<Rightarrow> Some c
                | None \<Rightarrow> if 1 < length (columns td) then Some (columns td ! 1)
                           else Some (columns td ! 0))"
proof -
  have run: "inferenceEffect s
               = Some (inferColumns (selectedXColumn s) (selectedYColumn s) td s)"
    using td named by (simp add: inferenceEffect_def)
  have second: "1 < length (columns td) \<Longrightarrow> columns td ! 1 \<noteq> []"
    using named by (metis nth_mem)
  have num: "numericColumn td \<noteq> Some []"
    using named numericColumn_in_columns by metis
  show ?thesis
    using run second num inferColumns_default_y [OF ne, of "selectedYColumn s"] y
    by (auto split: option.splits)
qed

lemma inferenceEffect_default_x:
  assumes td: "tableData s = Some td" and ne: "columns td \<noteq> []"
      and named: "[] \<notin> set (columns td)"
      and x: "\<not> js_includes (columns td) (selectedXColumn s)"
  shows "\<exists>s'. inferenceEffect s = Some s'
           \<and> selectedXColumn s' = Some (columns td ! 0)"
  using assms inferColumns_default_x [OF ne, of "selectedXColumn s"]
  by (simp add: inferenceEffect_def)

lemma inferenceEffect_keeps_valid:
  assumes "tableData s = Some td" and "[] \<notin> set (columns td)"
      and "selectedXColumn s = Some x" and "x \<in> set (columns td)"
      and "selectedYColumn s = Some y" and "y \<in> set (columns td)"
  shows "inferenceEffect s = Some s"
proof -
  from assms have "x \<noteq> []" "y \<noteq> []" by auto
  with assms show ?thesis
    by (simp add: inferenceEffect_def inferColumns_keeps_valid)
qed

section \<open>Overlapping fetches on one stream\<close>

text \<open>
  C1 claims that a fetch issued under a key that has since been superseded is discarded
  when it settles after the fetch of the current key. Neither component compares the
  settling request with the current state. In the table-page trace, file f2 is selected
  and its page is on display when the fetch issued for f1 settles; the page of f1
  replaces it while f2 stays selected. In the chart trace, the chart type is line and the
  line chart is on display when the request issued for the bar chart settles; the bar
  chart replaces it.
\<close>

theorem stale_fetch_overwrites_counterexample:
  "tc_selectedFileId race_cl1 = ''f1''
   \<and> tc_selectedFileId race_cl2 = ''f2''
   \<and> selectedFileId race_t4 = Some ''f2''
   \<and> tableData race_t4 = Some sales_page
   \<and> selectedFileId race_t5 = Some ''f2''
   \<and> tableData race_t5 = Some people_page
   \<and> columns people_page \<noteq> columns sales_page
   \<and> cr_chart_type race_req1 = ''bar''
   \<and> cr_chart_type race_req2 = ''line''
   \<and> selectedChartType race_c4 = ''line''
   \<and> chartData race_c4 = Some line_chart
   \<and> selectedChartType race_c5 = ''line''
   \<and> chartData race_c5 = Some bar_chart
   \<and> chart_type bar_chart \<noteq> chart_type line_chart"
  by (simp add: race_defs fetchFiles_resolve_def initial_table_def
      ready_table_def truthy_def file_f1_def fetchData_start_table_def
      fetchData_resolve_table_def handleFileSelect_table_def people_page_def
      sales_page_def fetchChartData_start_def fetchChartData_resolve_def
      chartTypeSelect_onValueChange_def bar_chart_def line_chart_def)

text \<open>
  C1, amended. On both streams and in both components, a fetch that settles successfully
  is committed whatever it was issued under and whatever the state is by then: the
  committed result is the payload of the fetch that settled last, and the loading flag of
  the stream is cleared. The committed result matches the current key only when the fetch
  of the current key is the last one to settle.
\<close>

theorem resolution_commits_unconditionally:
  "tableData (fetchData_resolve_table tc (Inr td) t) = Some td
   \<and> \<not> isLoadingTable (fetchData_resolve_table tc (Inr td) t)
   \<and> tableData (fetchData_resolve_manual mc (Inr td) m) = Some td
   \<and> \<not> isLoadingTable (fetchData_resolve_manual mc (Inr td) m)
   \<and> chartData (fetchChartData_resolve req (Inr r) s) = Some r
   \<and> \<not> isLoadingChart (fetchChartData_resolve req (Inr r) s)"
  by (simp add: fetchData_resolve_table_def fetchData_resolve_manual_def
      fetchChartData_resolve_def inferColumns_other_cells)

theorem resolution_commits_unconditionally_witness:
  "tc_selectedFileId race_cl1 = ''f1''
   \<and> selectedFileId race_t4 = Some ''f2''
   \<and> tableData (fetchData_resolve_table race_cl1 (Inr people_page) race_t4)
       = Some people_page
   \<and> cr_chart_type race_req1 = ''bar''
   \<and> selectedChartType race_c4 = ''line''
   \<and> chartData (fetchChartData_resolve race_req1 (Inr bar_chart) race_c4)
       = Some bar_chart"
proof -
  have keys: "tc_selectedFileId race_cl1 = ''f1''" "selectedFileId race_t4 = Some ''f2''"
             "cr_chart_type race_req1 = ''bar''" "selectedChartType race_c4 = ''line''"
    by (simp_all add: race_defs fetchFiles_resolve_def initial_table_def
        ready_table_def truthy_def file_f1_def fetchData_start_table_def
        fetchData_resolve_table_def handleFileSelect_table_def fetchChartData_start_def
        fetchChartData_resolve_def chartTypeSelect_onValueChange_def)
  show ?thesis
    using resolution_commits_unconditionally
            [of race_cl1 people_page race_t4 _ _ race_req1 bar_chart race_c4] keys
    by simp
qed

section \<open>Page reset\<close>

text \<open>
  C2 says that the page is 1 after every sort, filter, page-size and dataset change. In
  the manual-pagination component only \<open>handleFileSelect\<close> sets the page: on page 3,
  \<open>handleSort\<close>, the search box and the page-size select all leave the page at 3. The
  table-library component resets the page in each of its handlers
  (\<open>table_handlers_reset_page\<close>).
\<close>

theorem manual_handlers_keep_page:
  "currentPage page3_manual = 3
   \<and> currentPage (handleSort ''age'' page3_manual) = 3
   \<and> currentPage (searchInput_onChange ''a'' page3_manual) = 3
   \<and> currentPage (pageSizeSelect_onValueChange 25 page3_manual) = 3
   \<and> currentPage (handleFileSelect_manual ''f2'' page3_manual) = 1"
  by (simp add: page3_manual_def initial_manual_def handleSort_def
      searchInput_onChange_def pageSizeSelect_onValueChange_def
      handleFileSelect_manual_def)

section \<open>Sort toggle\<close>

text \<open>
  C3 claims a tri-state toggle that returns to no sort on the third application.
  \<open>handleSort\<close> never clears \<open>sortColumn\<close>: three applications to the same column from
  the initial state end with that column sorted ascending.
\<close>

theorem handleSort_thrice_counterexample:
  "sortColumn initial_manual = None
   \<and> sortColumn (handleSort ''A'' (handleSort ''A'' (handleSort ''A'' initial_manual)))
       = Some ''A''
   \<and> sortOrder (handleSort ''A'' (handleSort ''A'' (handleSort ''A'' initial_manual)))
       = Asc"
  by (simp add: handleSort_def initial_manual_def)

text \<open>
  C3, amended. \<open>handleSort\<close> is a two-state toggle: starting from no sort, repeated
  application to the same column A gives ascending, then descending, then ascending
  again, with A staying the sort column; and applying it to A and then to a different
  column B gives column B, ascending, from every state.
\<close>

theorem handleSort_two_state:
  "(sortColumn s = None \<longrightarrow>
      sortColumn (handleSort a s) = Some a \<and> sortOrder (handleSort a s) = Asc
      \<and> sortColumn (handleSort a (handleSort a s)) = Some a
      \<and> sortOrder (handleSort a (handleSort a s)) = Desc
      \<and> sortColumn (handleSort a (handleSort a (handleSort a s))) = Some a
      \<and> sortOrder (handleSort a (handleSort a (handleSort a s))) = Asc)
   \<and> (a \<noteq> b \<longrightarrow>
      sortColumn (handleSort b (handleSort a s)) = Some b
      \<and> sortOrder (handleSort b (handleSort a s)) = Asc)"
  by (simp add: handleSort_def)

theorem handleSort_two_state_witness:
  "sortColumn initial_manual = None \<and> ''A'' \<noteq> ''B''
   \<and> sortColumn (handleSort ''A'' (handleSort ''A'' initial_manual)) = Some ''A''
   \<and> sortOrder (handleSort ''A'' (handleSort ''A'' initial_manual)) = Desc
   \<and> sortColumn (handleSort ''B'' (handleSort ''A'' initial_manual)) = Some ''B''
   \<and> sortOrder (handleSort ''B'' (handleSort ''A'' initial_manual)) = Asc"
  using handleSort_two_state [of initial_manual "''A''" "''B''"]
  by (simp add: initial_manual_def)

section \<open>Failure isolation\<close>

text \<open>
  C4 claims one error slot per stream and that a failure on one stream never blocks
  another. The dataset-list stream has no slot of its own: \<open>fetchFiles\<close> records its
  failure in \<open>dataFetchError\<close>, the slot of the table-page stream, and both cards render
  that slot before their data. With a page on display, a failed dataset-list fetch makes
  the table card show the error instead of the page, and a failed page fetch makes the
  file card show the error instead of the file list.
\<close>

theorem shared_error_slot_counterexample:
  "tableCard ready_table = DataTable people_page
   \<and> filesCard ready_table = FileList [file_f1, file_f2]
   \<and> dataFetchError ready_table = None
   \<and> dataFetchError (fetchFiles_resolve (Some ''f1'') (Inl NetworkError) ready_table)
       = Some ''Failed to fetch files.''
   \<and> tableData (fetchFiles_resolve (Some ''f1'') (Inl NetworkError) ready_table) = Some people_page
   \<and> tableCard (fetchFiles_resolve (Some ''f1'') (Inl NetworkError) ready_table)
       = ErrorMessage ''Failed to fetch files.''
   \<and> files (fetchData_resolve_table race_cl1 (Inl NetworkError) ready_table)
       = [file_f1, file_f2]
   \<and> filesCard (fetchData_resolve_table race_cl1 (Inl NetworkError) ready_table)
       = FilesError ''Failed to fetch data.''"
  by (simp add: ready_table_def initial_table_def tableCard_def filesCard_def truthy_def
      fetchFiles_resolve_def fetchData_resolve_table_def)

text \<open>
  C4, amended. The chart-projection stream has its own error slot, and the dataset-list
  and table-page streams share one. A failed chart-projection fetch leaves the table
  page, its loading flag, the shared error slot, the selection and what the table card
  shows unchanged. A failed page fetch leaves the chart result, the chart error slot and
  the chart loading flag unchanged, in both components. A failed dataset-list fetch
  leaves the table page and the chart cells unchanged and writes only the shared error
  slot.
\<close>

theorem failure_isolation:
  "tableData (fetchChartData_resolve req (Inl e) s) = tableData s
   \<and> isLoadingTable (fetchChartData_resolve req (Inl e) s) = isLoadingTable s
   \<and> dataFetchError (fetchChartData_resolve req (Inl e) s) = dataFetchError s
   \<and> selectedFileId (fetchChartData_resolve req (Inl e) s) = selectedFileId s
   \<and> tableCard (fetchChartData_resolve req (Inl e) s) = tableCard s
   \<and> chartData (fetchData_resolve_table tc (Inl e) t) = chartData t
   \<and> chartFetchError (fetchData_resolve_table tc (Inl e) t) = chartFetchError t
   \<and> isLoadingChart (fetchData_resolve_table tc (Inl e) t) = isLoadingChart t
   \<and> chartData (fetchData_resolve_manual mc (Inl e) m) = chartData m
   \<and> chartFetchError (fetchData_resolve_manual mc (Inl e) m) = chartFetchError m
   \<and> isLoadingChart (fetchData_resolve_manual mc (Inl e) m) = isLoadingChart m
   \<and> tableData (fetchFiles_resolve sel (Inl e) s) = tableData s
   \<and> chartData (fetchFiles_resolve sel (Inl e) s) = chartData s
   \<and> chartFetchError (fetchFiles_resolve sel (Inl e) s) = chartFetchError s
   \<and> fetchFiles_resolve sel (Inl e) s = s\<lparr>dataFetchError := Some ''Failed to fetch files.''\<rparr>"
  by (simp add: fetchChartData_resolve_def fetchData_resolve_table_def
      fetchData_resolve_manual_def fetchFiles_resolve_def tableCard_def)

theorem failure_isolation_witness:
  "tableCard ready_table = DataTable people_page
   \<and> tableData (fetchChartData_resolve race_req1 (Inl (HttpStatus 400)) ready_table)
       = Some people_page
   \<and> tableCard (fetchChartData_resolve race_req1 (Inl (HttpStatus 400)) ready_table)
       = DataTable people_page
   \<and> chartData (fetchData_resolve_table race_cl1 (Inl (HttpStatus 400)) ready_table)
       = Some bar_chart"
proof -
  have before: "tableCard ready_table = DataTable people_page"
               "tableData ready_table = Some people_page"
               "chartData ready_table = Some bar_chart"
    by (simp_all add: ready_table_def initial_table_def tableCard_def truthy_def)
  show ?thesis
    using failure_isolation [of race_req1 "HttpStatus 400" ready_table race_cl1 ready_table]
          before
    by simp
qed

section \<open>Default chart columns\<close>

text \<open>
  C5 says that when the current Y column is absent or not in the fetched column list,
  inference sets it to the first column with a number in one of the first five rows, and
  the X column to \<open>columns[0]\<close>. The effect of the table-library component reads the
  current columns and does so (\<open>inferenceEffect_default_y\<close>, \<open>inferenceEffect_default_x\<close>).
  In the manual-pagination component the guard inside \<open>fetchData\<close> reads the chart
  columns captured when the callback was created. In the trace, page fetch D was issued
  with name and age in its closure. When it settles with the page of f1, whose columns
  are name, age and city with a number under age, the current columns are item and
  price: neither is in the fetched column list, and both stay as they are, where the
  claim gives name and age.
\<close>

theorem stale_fetch_skips_inference:
  "mc_selectedFileId late_clD = ''f1''
   \<and> mc_selectedXColumn late_clD = Some ''name''
   \<and> mc_selectedYColumn late_clD = Some ''age''
   \<and> selectedFileId late_m5 = Some ''f1''
   \<and> selectedXColumn late_m5 = Some ''item''
   \<and> selectedYColumn late_m5 = Some ''price''
   \<and> columns people_page = [''name'', ''age'', ''city'']
   \<and> numericColumn people_page = Some ''age''
   \<and> tableData late_m6 = Some people_page
   \<and> selectedFileId late_m6 = Some ''f1''
   \<and> selectedXColumn late_m6 = Some ''item''
   \<and> selectedYColumn late_m6 = Some ''price''"
proof -
  have num1: "numericColumn people_page = Some ''age''"
    by (simp add: numericColumn_def people_page_def)
  have num2: "numericColumn sales_page = Some ''price''"
    by (simp add: numericColumn_def sales_page_def)
  have cols1: "columns people_page = [''name'', ''age'', ''city'']"
    by (simp add: people_page_def)
  have cols2: "columns sales_page = [''item'', ''price'']"
    by (simp add: sales_page_def)
  have m1: "selectedFileId late_m1 = Some ''f1''" "selectedXColumn late_m1 = None"
           "selectedYColumn late_m1 = None"
    by (simp_all add: late_defs fetchFiles_resolve_def initial_manual_def truthy_def
        file_f1_def fetchData_start_manual_def)
  have clA: "mc_selectedXColumn late_clA = None" "mc_selectedYColumn late_clA = None"
    by (simp_all add: late_defs fetchFiles_resolve_def initial_manual_def truthy_def
        file_f1_def fetchData_start_manual_def)
  have a: "selectedFileId (fetchData_resolve_manual late_clA (Inr people_page) late_m1)
             = Some ''f1''"
          "selectedXColumn (fetchData_resolve_manual late_clA (Inr people_page) late_m1)
             = Some ''name''"
          "selectedYColumn (fetchData_resolve_manual late_clA (Inr people_page) late_m1)
             = Some ''age''"
    using m1 clA num1 cols1
    by (simp_all add: fetchData_resolve_manual_def inferColumns_def Let_def truthy_def
        js_or_def js_index_def)
  have m2: "selectedFileId late_m2 = Some ''f1''" "selectedXColumn late_m2 = Some ''name''"
           "selectedYColumn late_m2 = Some ''age''"
    using a by (simp_all add: late_m2_def fetchData_start_manual_def truthy_def)
  have clD: "mc_selectedFileId late_clD = ''f1''"
            "mc_selectedXColumn late_clD = Some ''name''"
            "mc_selectedYColumn late_clD = Some ''age''"
    using a by (simp_all add: late_clD_def fetchData_start_manual_def truthy_def)
  have f2: "selectedFileId (handleFileSelect_manual ''f2'' late_m2) = Some ''f2''"
           "selectedXColumn (handleFileSelect_manual ''f2'' late_m2) = Some ''name''"
           "selectedYColumn (handleFileSelect_manual ''f2'' late_m2) = Some ''age''"
    using m2 by (simp_all add: handleFileSelect_manual_def)
  have m3: "selectedFileId late_m3 = Some ''f2''" "selectedXColumn late_m3 = Some ''name''"
           "selectedYColumn late_m3 = Some ''age''"
    using f2 by (simp_all add: late_m3_def fetchData_start_manual_def truthy_def)
  have clE: "mc_selectedXColumn late_clE = Some ''name''"
            "mc_selectedYColumn late_clE = Some ''age''"
    using f2 by (simp_all add: late_clE_def fetchData_start_manual_def truthy_def)
  have e: "selectedFileId (fetchData_resolve_manual late_clE (Inr sales_page) late_m3)
             = Some ''f2''"
          "selectedXColumn (fetchData_resolve_manual late_clE (Inr sales_page) late_m3)
             = Some ''item''"
          "selectedYColumn (fetchData_resolve_manual late_clE (Inr sales_page) late_m3)
             = Some ''price''"
    using m3 clE num2 cols2
    by (simp_all add: fetchData_resolve_manual_def inferColumns_def Let_def truthy_def
        js_or_def js_index_def js_includes_def)
  have m4: "selectedXColumn late_m4 = Some ''item''"
           "selectedYColumn late_m4 = Some ''price''"
    using e by (simp_all add: late_m4_def fetchData_start_manual_def truthy_def)
  have f1: "selectedFileId (handleFileSelect_manual ''f1'' late_m4) = Some ''f1''"
           "selectedXColumn (handleFileSelect_manual ''f1'' late_m4) = Some ''item''"
           "selectedYColumn (handleFileSelect_manual ''f1'' late_m4) = Some ''price''"
    using m4 by (simp_all add: handleFileSelect_manual_def)
  have m5: "selectedFileId late_m5 = Some ''f1''" "selectedXColumn late_m5 = Some ''item''"
           "selectedYColumn late_m5 = Some ''price''"
    using f1 by (simp_all add: late_m5_def fetchData_start_manual_def truthy_def)
  have m6: "tableData late_m6 = Some people_page" "selectedFileId late_m6 = Some ''f1''"
           "selectedXColumn late_m6 = Some ''item''"
           "selectedYColumn late_m6 = Some ''price''"
    using m5 clD cols1
    by (simp_all add: late_m6_def fetchData_resolve_manual_def inferColumns_def Let_def
        truthy_def js_includes_def)
  from clD m5 cols1 num1 m6 show ?thesis by simp
qed

section \<open>Inference and chosen columns\<close>

text \<open>
  C6 says that inference leaves the chart columns alone while both are in the current
  column list, so that a choice of the user is never overwritten while it is valid. The
  effect of the table-library component reads the current columns and keeps them
  (\<open>inferenceEffect_keeps_valid\<close>). In the manual-pagination component the guard inside
  \<open>fetchData\<close> reads the chart columns captured when the callback was created. In the
  trace, page fetch C was issued before any column was set. The page of f1 is on
  display with name and city chosen, both in its column list, when C settles with the
  same page: X stays name, and Y moves from city to age.
\<close>

theorem stale_fetch_overwrites_choice:
  "mc_selectedFileId stale_clC = ''f1''
   \<and> mc_selectedYColumn stale_clC = None
   \<and> tableData stale_m5 = Some people_page
   \<and> selectedXColumn stale_m5 = Some ''name''
   \<and> selectedYColumn stale_m5 = Some ''city''
   \<and> ''name'' \<in> set (columns people_page)
   \<and> ''city'' \<in> set (columns people_page)
   \<and> tableData stale_m6 = Some people_page
   \<and> selectedXColumn stale_m6 = Some ''name''
   \<and> selectedYColumn stale_m6 = Some ''age''"
proof -
  have num: "numericColumn people_page = Some ''age''"
    by (simp add: numericColumn_def people_page_def)
  have cols: "columns people_page = [''name'', ''age'', ''city'']"
    by (simp add: people_page_def)
  have m3: "selectedFileId stale_m3 = Some ''f1''" "selectedXColumn stale_m3 = None"
           "selectedYColumn stale_m3 = None"
    by (simp_all add: stale_defs fetchFiles_resolve_def initial_manual_def
        truthy_def file_f1_def fetchData_start_manual_def handleFileSelect_manual_def)
  have clC: "mc_selectedFileId stale_clC = ''f1''" "mc_selectedXColumn stale_clC = None"
            "mc_selectedYColumn stale_clC = None"
    by (simp_all add: stale_defs fetchFiles_resolve_def initial_manual_def
        truthy_def file_f1_def fetchData_start_manual_def handleFileSelect_manual_def)
  have clA: "mc_selectedXColumn stale_clA = None" "mc_selectedYColumn stale_clA = None"
    by (simp_all add: stale_defs fetchFiles_resolve_def initial_manual_def
        truthy_def file_f1_def fetchData_start_manual_def)
  have m4: "selectedFileId stale_m4 = Some ''f1''" "tableData stale_m4 = Some people_page"
           "selectedXColumn stale_m4 = Some ''name''"
           "selectedYColumn stale_m4 = Some ''age''"
    using m3 clA num cols
    by (simp_all add: stale_m4_def fetchData_start_manual_def fetchData_resolve_manual_def
        inferColumns_def Let_def truthy_def js_or_def js_index_def)
  have m5: "selectedFileId stale_m5 = Some ''f1''" "tableData stale_m5 = Some people_page"
           "selectedXColumn stale_m5 = Some ''name''"
           "selectedYColumn stale_m5 = Some ''city''"
    using m4
    by (simp_all add: stale_m5_def fetchData_start_manual_def
        yColumnSelect_onValueChange_def truthy_def)
  have m6: "tableData stale_m6 = Some people_page"
           "selectedXColumn stale_m6 = Some ''name''"
           "selectedYColumn stale_m6 = Some ''age''"
    using m5 clC num cols
    by (simp_all add: stale_m6_def fetchData_resolve_manual_def inferColumns_def Let_def
        truthy_def js_or_def js_index_def)
  from m5 m6 clC cols show ?thesis by simp
qed

section \<open>Selecting a dataset\<close>

text \<open>
  C7. For every dataset id, selecting it sets the selected id to that id, resets the page
  to 1, clears the sort specification and clears the filter text. This holds for
  \<open>handleFileSelect\<close> of both components, from every state.
\<close>

theorem handleFileSelect_resets:
  "selectedFileId (handleFileSelect_manual fileId s) = Some fileId
   \<and> currentPage (handleFileSelect_manual fileId s) = 1
   \<and> sortColumn (handleFileSelect_manual fileId s) = None
   \<and> searchQuery (handleFileSelect_manual fileId s) = []
   \<and> selectedFileId (handleFileSelect_table fileId t) = Some fileId
   \<and> currentPage (handleFileSelect_table fileId t) = 1
   \<and> sorting (handleFileSelect_table fileId t) = []
   \<and> globalFilter (handleFileSelect_table fileId t) = []"
  by (simp add: handleFileSelect_manual_def handleFileSelect_table_def)

theorem handleFileSelect_resets_witness:
  "sortColumn (handleSort ''age'' page3_manual) = Some ''age''
   \<and> currentPage (handleSort ''age'' page3_manual) = 3
   \<and> selectedFileId (handleFileSelect_manual ''f2'' (handleSort ''age'' page3_manual))
       = Some ''f2''
   \<and> currentPage (handleFileSelect_manual ''f2'' (handleSort ''age'' page3_manual)) = 1
   \<and> sortColumn (handleFileSelect_manual ''f2'' (handleSort ''age'' page3_manual)) = None
   \<and> searchQuery (handleFileSelect_manual ''f2'' (handleSort ''age'' page3_manual)) = []
   \<and> sorting (handleFileSelect_table ''f2'' ready_table) = []
   \<and> globalFilter (handleFileSelect_table ''f2'' ready_table) = []"
proof -
  have before: "sortColumn (handleSort ''age'' page3_manual) = Some ''age''"
               "currentPage (handleSort ''age'' page3_manual) = 3"
    by (simp_all add: handleSort_def page3_manual_def initial_manual_def)
  show ?thesis
    using handleFileSelect_resets
            [of "''f2''" "handleSort ''age'' page3_manual" ready_table] before
    by simp
qed

section \<open>Selection after a dataset-list fetch\<close>




section \<open>Chart projection without a complete selection\<close>

text \<open>
  C9. In every state in which the selected dataset id, the X column or the Y column is
  absent, \<open>fetchChartData\<close> issues no request and sets the chart result to absent; the
  chart loading flag, the chart error slot and every other cell keep their values.
\<close>

theorem fetchChartData_absent_selection:
  assumes "selectedFileId s = None \<or> selectedXColumn s = None \<or> selectedYColumn s = None"
  shows "snd (fetchChartData_start s) = None
   \<and> fst (fetchChartData_start s) = s\<lparr>chartData := None\<rparr>
   \<and> chartData (fst (fetchChartData_start s)) = None
   \<and> isLoadingChart (fst (fetchChartData_start s)) = isLoadingChart s
   \<and> chartFetchError (fst (fetchChartData_start s)) = chartFetchError s"
proof -
  from assms have
    "\<not> truthy (selectedFileId s) \<or> \<not> truthy (selectedXColumn s)
     \<or> \<not> truthy (selectedYColumn s)"
    by (auto simp: truthy_def)
  then have "fetchChartData_start s = (s\<lparr>chartData := None\<rparr>, None)"
    unfolding fetchChartData_start_def by simp
  then show ?thesis by simp
qed

theorem fetchChartData_absent_selection_witness:
  "selectedYColumn no_y_state = None
   \<and> chartData no_y_state = Some bar_chart
   \<and> snd (fetchChartData_start no_y_state) = None
   \<and> chartData (fst (fetchChartData_start no_y_state)) = None
   \<and> isLoadingChart (fst (fetchChartData_start no_y_state))
   \<and> chartFetchError (fst (fetchChartData_start no_y_state)) = Some ''old''"
proof -
  have h: "selectedFileId no_y_state = None \<or> selectedXColumn no_y_state = None
           \<or> selectedYColumn no_y_state = None"
    by (simp add: no_y_state_def initial_manual_def)
  have before: "selectedYColumn no_y_state = None" "chartData no_y_state = Some bar_chart"
               "isLoadingChart no_y_state" "chartFetchError no_y_state = Some ''old''"
    by (simp_all add: no_y_state_def initial_manual_def)
  show ?thesis
    using fetchChartData_absent_selection [OF h] before by simp
qed

section \<open>Failure of a table-page fetch\<close>

text \<open>
  C10. Whenever a table-page fetch fails, the handler sets the table-page result to absent
  and records the error: the page held before is never kept next to the error. This holds
  in both components, for every closure, error and state.
\<close>

theorem fetchData_failure_clears_page:
  "tableData (fetchData_resolve_table tc (Inl e) t) = None
   \<and> dataFetchError (fetchData_resolve_table tc (Inl e) t) = Some ''Failed to fetch data.''
   \<and> tableData (fetchData_resolve_manual mc (Inl e) m) = None
   \<and> dataFetchError (fetchData_resolve_manual mc (Inl e) m) = Some ''Failed to fetch data.''"
  by (simp add: fetchData_resolve_table_def fetchData_resolve_manual_def)

theorem fetchData_failure_clears_page_witness:
  "tableData ready_table = Some people_page
   \<and> tableData (fetchData_resolve_table race_cl1 (Inl NetworkError) ready_table) = None
   \<and> dataFetchError (fetchData_resolve_table race_cl1 (Inl NetworkError) ready_table)
       = Some ''Failed to fetch data.''
   \<and> tableData page3_manual = Some people_page
   \<and> tableData (fetchData_resolve_manual
        (the (snd (fetchData_start_manual page3_manual))) (Inl NetworkError) page3_manual)
       = None"
proof -
  have before: "tableData ready_table = Some people_page"
               "tableData page3_manual = Some people_page"
    by (simp_all add: ready_table_def initial_table_def page3_manual_def initial_manual_def)
  show ?thesis
    using fetchData_failure_clears_page
            [of race_cl1 NetworkError ready_table
                "the (snd (fetchData_start_manual page3_manual))" page3_manual]
          before
    by simp
qed

end
